theory Spec2Isabelle
  imports Complex_Main "HOL-Library.Word"
begin

section \<open>The wall-tracking node of turtlebot3\_wall\<close>

text \<open>
  A shallow embedding of \<^verbatim>\<open>src/wall_tracking.cpp\<close>. The members of the class
  \<^verbatim>\<open>WallTracking\<close> are split in two records: \<open>Config\<close> holds the members that only
  \<^verbatim>\<open>get_param\<close> writes, \<open>State\<close> the members that change afterwards.

  Numbers. The C++ members and locals are \<^verbatim>\<open>float\<close> and \<^verbatim>\<open>double\<close>. They are
  modelled as \<open>real\<close>: finite values without rounding, no infinity and no NaN. The one
  place of the file where the code divides, \<^verbatim>\<open>e / sampling_rate_\<close>, leaves the reals
  when the divisor is zero, and the model returns an error value there.
  The comparisons of a \<^verbatim>\<open>float\<close> score with the \<^verbatim>\<open>double\<close> literals 0.7 and
  0.4 agree with the comparisons of the reals: no \<^verbatim>\<open>float\<close> lies between the
  \<^verbatim>\<open>double\<close> nearest to 0.7 (or to 0.4) and the decimal itself.
\<close>

subsection \<open>Configuration (\<^verbatim>\<open>get_param\<close>)\<close>

record Config =
  max_linear_vel :: real
  max_angular_vel :: real
  min_angular_vel :: real
  distance_from_wall :: real
  distance_to_stop :: real
  sampling_rate :: real
  kp :: real
  ki :: real
  kd :: real
  start_deg_lateral :: int
  end_deg_lateral :: int
  stop_ray_th :: real
  wheel_separation :: real
  distance_to_skip :: real
  cmd_vel_topic_name :: string
  open_place_distance :: real

text \<open>The values \<^verbatim>\<open>set_param\<close> declares as defaults: zero everywhere, an empty topic name.\<close>

definition set_param :: Config where
  "set_param =
     \<lparr>max_linear_vel = 0, max_angular_vel = 0, min_angular_vel = 0,
      distance_from_wall = 0, distance_to_stop = 0, sampling_rate = 0,
      kp = 0, ki = 0, kd = 0, start_deg_lateral = 0, end_deg_lateral = 0,
      stop_ray_th = 0, wheel_separation = 0, distance_to_skip = 0,
      cmd_vel_topic_name = [], open_place_distance = 0\<rparr>"

subsection \<open>The scan analyser\<close>

text \<open>
  The class \<^verbatim>\<open>ScanData\<close> is not part of the source file. It is taken as a parameter:
  a value of \<open>ScanData\<close> holds the answers that the analyser gives to the queries of
  \<^verbatim>\<open>wall_tracking.cpp\<close> once it has been updated with a scan. A scan message is
  modelled by the analyser it leaves behind.
\<close>

record ScanData =
  conflictCheck :: "real \<Rightarrow> real \<Rightarrow> bool"
  thresholdCheck :: "real \<Rightarrow> real \<Rightarrow> bool"
  frontWallCheck :: "real \<Rightarrow> real \<Rightarrow> real"
  noiseCheck :: "real \<Rightarrow> bool"
  leftWallCheck :: "real \<Rightarrow> real \<Rightarrow> real"
  openPlaceCheck :: "real \<Rightarrow> real \<Rightarrow> real \<Rightarrow> real"

subsection \<open>State and effects\<close>

record State =
  ei :: real
  fwc_deg :: real
  flw_deg :: real
  open_place :: bool
  outdoor :: bool
  init_scan_data :: bool
  scan_data :: "ScanData option"

text \<open>
  What the node sends out, in the order of the calls: a velocity command, the dwell of
  \<^verbatim>\<open>rclcpp::sleep_for\<close> (in milliseconds), the two status topics, the feedback of the
  action and its terminal reports with the value of \<^verbatim>\<open>result->get\<close>.
\<close>

datatype event =
    CmdVel real real
  | SleepFor nat
  | OpenPlaceArrived bool
  | OpenPlaceDetection string
  | Feedback bool
  | GoalCanceled bool
  | GoalSucceeded bool

text \<open>
  \<open>NullScanData\<close>: \<^verbatim>\<open>wallTracking\<close> dereferences \<^verbatim>\<open>scan_data_\<close> before any scan has
  arrived. \<open>NonFiniteFloat\<close>: a division by a zero sampling rate.
\<close>

datatype error = NullScanData | NonFiniteFloat

text \<open>
  Modelled from the spec: the macro \<^verbatim>\<open>DEG2RAD\<close> is declared in the header
  \<^verbatim>\<open>wall_tracking.hpp\<close>, which is not among the sources; the spec says
  "converted to radians".
\<close>

definition DEG2RAD :: "real \<Rightarrow> real" where
  "DEG2RAD deg = deg * pi / 180"

text \<open>
  \<^verbatim>\<open>init_variable\<close>. The two derived angles come out of floating-point trigonometry
  (\<^verbatim>\<open>atan2f\<close>, \<^verbatim>\<open>tan\<close>) on the configuration; they are passed in as \<open>fwc\<close> and
  \<open>flw\<close>.
\<close>

definition init_variable :: "real \<Rightarrow> real \<Rightarrow> State \<Rightarrow> State" where
  "init_variable fwc flw s =
     s\<lparr>ei := 0, fwc_deg := fwc, flw_deg := flw,
       open_place := False, outdoor := False, init_scan_data := False\<rparr>"

text \<open>The constructor: \<^verbatim>\<open>scan_data_\<close> starts as a null pointer, the rest is set by
  \<^verbatim>\<open>init_variable\<close>.\<close>

definition WallTracking_new :: "real \<Rightarrow> real \<Rightarrow> State" where
  "WallTracking_new fwc flw =
     init_variable fwc flw
       \<lparr>ei = 0, fwc_deg = 0, flw_deg = 0, open_place = False, outdoor = False,
        init_scan_data = False, scan_data = None\<rparr>"

definition pub_cmd_vel :: "Config \<Rightarrow> real \<Rightarrow> real \<Rightarrow> event" where
  "pub_cmd_vel cfg linear_x angular_z =
     CmdVel (min linear_x (max_linear_vel cfg))
            (max (min angular_z (max_angular_vel cfg)) (min_angular_vel cfg))"

definition pub_open_place_arrived :: "bool \<Rightarrow> event" where
  "pub_open_place_arrived open_place_arrived = OpenPlaceArrived open_place_arrived"

definition pub_open_place_detection :: "string \<Rightarrow> event" where
  "pub_open_place_detection open_place_detection = OpenPlaceDetection open_place_detection"

subsection \<open>The subscriptions\<close>

definition scan_callback :: "Config \<Rightarrow> ScanData \<Rightarrow> State \<Rightarrow> State \<times> event list" where
  "scan_callback cfg msg s =
     (let s1 = (if \<not> init_scan_data s
                then s\<lparr>scan_data := Some msg, init_scan_data := True\<rparr> else s);
          s2 = s1\<lparr>scan_data := Some msg\<rparr>;
          s3 = (if \<not> outdoor s2 then s2\<lparr>open_place := False\<rparr>
                else
                  (let open_place_arrived_check =
                         openPlaceCheck msg (- 90) 90 (open_place_distance cfg)
                   in if \<not> open_place s2
                      then s2\<lparr>open_place := (0.7 \<le> open_place_arrived_check)\<rparr>
                      else s2\<lparr>open_place := (0.4 \<le> open_place_arrived_check)\<rparr>))
      in (s3, [pub_open_place_arrived (open_place s3)]))"

text \<open>\<^verbatim>\<open>NavSatFix\<close> of \<^verbatim>\<open>sensor_msgs\<close>: the covariance type is a byte, 0 is "unknown".\<close>

definition COVARIANCE_TYPE_UNKNOWN :: "8 word" where
  "COVARIANCE_TYPE_UNKNOWN = 0"

definition gnss_callback :: "8 word \<Rightarrow> State \<Rightarrow> State" where
  "gnss_callback position_covariance_type s =
     s\<lparr>outdoor := (if position_covariance_type = COVARIANCE_TYPE_UNKNOWN then False else True)\<rparr>"

subsection \<open>The lateral PID controller\<close>

definition lateral_pid_control :: "Config \<Rightarrow> real \<Rightarrow> State \<Rightarrow> error + (real \<times> State)" where
  "lateral_pid_control cfg input s =
     (let e = input - distance_from_wall cfg;
          s' = s\<lparr>ei := ei s + e * sampling_rate cfg\<rparr>
      in if sampling_rate cfg = 0 then Inl NonFiniteFloat
         else
           (let ed = e / sampling_rate cfg
            in Inr (e * kp cfg + ei s' * ki cfg + ed * kd cfg, s')))"

subsection \<open>One decision cycle\<close>

text \<open>\<^verbatim>\<open>std::max_element\<close>: the position of the first largest element.\<close>

fun max_element_from :: "real \<Rightarrow> nat \<Rightarrow> nat \<Rightarrow> real list \<Rightarrow> nat" where
  "max_element_from largest li i [] = li"
| "max_element_from largest li i (x # xs) =
     (if largest < x then max_element_from x i (Suc i) xs
      else max_element_from largest li (Suc i) xs)"

definition max_element :: "real list \<Rightarrow> nat" where
  "max_element xs = (case xs of [] \<Rightarrow> 0 | x # rest \<Rightarrow> max_element_from x 0 1 rest)"

definition degs :: "(real \<times> real) list" where
  "degs = [(- 15, 15), (15, 45), (- 45, - 15)]"

text \<open>The loop over the three sectors, on a vector of four zeros.\<close>

definition open_place_evals :: "Config \<Rightarrow> ScanData \<Rightarrow> real list" where
  "open_place_evals cfg sd =
     fold (\<lambda>i evals.
             (let res = openPlaceCheck sd (fst (degs ! i)) (snd (degs ! i))
                          (open_place_distance cfg)
              in evals[i := (if res < 0.7 then - 1 else res)]))
          [0, 1, 2] (replicate 4 0)"

definition wallTracking_on :: "Config \<Rightarrow> ScanData \<Rightarrow> State \<Rightarrow> error + (State \<times> event list)" where
  "wallTracking_on cfg sd s =
     (let gap_th = distance_from_wall cfg * 2;
          gap_start = conflictCheck sd (real_of_int (start_deg_lateral cfg)) gap_th;
          gap_end = conflictCheck sd 90 gap_th;
          front_left_wall = thresholdCheck sd (flw_deg s) 1.87;
          front_wall_check = frontWallCheck sd (fwc_deg s) (distance_to_stop cfg);
          detection_res = ''Indoor''
      in
        if \<not> outdoor s then
          (if stop_ray_th cfg \<le> front_wall_check then
             Inr (s, [pub_cmd_vel cfg (max_linear_vel cfg / 4) (DEG2RAD (- 45)),
                      SleepFor 2000,
                      pub_open_place_detection detection_res])
           else if (gap_start \<or> gap_end) \<and> \<not> front_left_wall \<and> noiseCheck sd (flw_deg s) then
             Inr (s, [pub_cmd_vel cfg (max_linear_vel cfg) 0,
                      pub_open_place_detection detection_res])
           else
             (let lateral_mean = leftWallCheck sd (real_of_int (start_deg_lateral cfg))
                                   (real_of_int (end_deg_lateral cfg))
              in case lateral_pid_control cfg lateral_mean s of
                   Inl err \<Rightarrow> Inl err
                 | Inr (angular_z, s') \<Rightarrow>
                     Inr (s', [pub_cmd_vel cfg (max_linear_vel cfg) angular_z,
                               pub_open_place_detection detection_res])))
        else
          (if stop_ray_th cfg \<le> front_wall_check then
             Inr (s, [pub_cmd_vel cfg (max_linear_vel cfg / 4) (DEG2RAD (- 45)),
                      SleepFor 2000,
                      pub_open_place_detection detection_res])
           else
             (let evals = open_place_evals cfg sd;
                  max_index = max_element evals
              in
                if max_index = 0 then
                  Inr (s, [pub_cmd_vel cfg (max_linear_vel cfg) 0,
                           pub_open_place_detection ''Front''])
                else if max_index = 1 then
                  Inr (s, [pub_cmd_vel cfg (max_linear_vel cfg) (max_angular_vel cfg),
                           pub_open_place_detection ''Left''])
                else if max_index = 2 then
                  Inr (s, [pub_cmd_vel cfg (max_linear_vel cfg) (min_angular_vel cfg),
                           pub_open_place_detection ''Right''])
                else if max_index = 3 then
                  (if (gap_start \<or> gap_end) \<and> \<not> front_left_wall \<and> noiseCheck sd (flw_deg s) then
                     Inr (s, [pub_cmd_vel cfg (max_linear_vel cfg) 0,
                              pub_open_place_detection ''Not open place''])
                   else
                     (let lateral_mean = leftWallCheck sd (real_of_int (start_deg_lateral cfg))
                                           (real_of_int (end_deg_lateral cfg))
                      in case lateral_pid_control cfg lateral_mean s of
                           Inl err \<Rightarrow> Inl err
                         | Inr (angular_z, s') \<Rightarrow>
                             Inr (s', [pub_cmd_vel cfg (max_linear_vel cfg) angular_z,
                                       pub_open_place_detection ''Not open place''])))
                else Inr (s, [pub_open_place_detection detection_res]))))"

definition wallTracking :: "Config \<Rightarrow> State \<Rightarrow> error + (State \<times> event list)" where
  "wallTracking cfg s =
     (case scan_data s of
        None \<Rightarrow> Inl NullScanData
      | Some sd \<Rightarrow> wallTracking_on cfg sd s)"

subsection \<open>The action server\<close>

text \<open>
  \<^verbatim>\<open>execute\<close> runs on a thread of its own while the subscriptions go on being served.
  The model interleaves at the grain of one loop iteration: a \<open>tick\<close> lists the
  messages whose callbacks ran since the previous iteration, and what
  \<^verbatim>\<open>rclcpp::ok()\<close> and \<^verbatim>\<open>is_canceling()\<close> answer in this iteration. \<open>ok_after\<close> is
  the answer of the second \<^verbatim>\<open>rclcpp::ok()\<close>, below the loop; it is read only in the
  tick whose loop test fails.
\<close>

datatype message = Scan ScanData | Gnss "8 word"

record tick =
  inbound :: "message list"
  ok :: bool
  ok_after :: bool
  is_canceling :: bool

fun serve :: "Config \<Rightarrow> message list \<Rightarrow> State \<Rightarrow> State \<times> event list" where
  "serve cfg [] s = (s, [])"
| "serve cfg (Scan msg # ms) s =
     (let (s1, evs1) = scan_callback cfg msg s;
          (s2, evs2) = serve cfg ms s1
      in (s2, evs1 @ evs2))"
| "serve cfg (Gnss ct # ms) s = serve cfg ms (gnss_callback ct s)"

text \<open>
  How a run over a finite list of ticks ends: \<^verbatim>\<open>execute\<close> returned, the loop is still
  going when the ticks are used up, or the thread met one of the two errors.
\<close>

datatype exit = Returned | StillLooping | Aborted error

text \<open>
  The loop of \<^verbatim>\<open>execute\<close> and the lines below it. \<open>feedback_end\<close> is the local
  \<^verbatim>\<open>feedback->end\<close>.
\<close>

fun execute_loop :: "Config \<Rightarrow> tick list \<Rightarrow> bool \<Rightarrow> State \<Rightarrow> State \<times> event list \<times> exit" where
  "execute_loop cfg [] feedback_end s = (s, [], StillLooping)"
| "execute_loop cfg (t # ts) feedback_end s =
     (let (s1, evs1) = serve cfg (inbound t) s
      in
        if \<not> ok t then
          (if ok_after t then (s1, evs1 @ [GoalSucceeded True], Returned)
           else (s1, evs1, Returned))
        else if is_canceling t then
          (s1, evs1 @ [GoalCanceled False, pub_cmd_vel cfg 0 0], Returned)
        else
          (let feedback_end' = open_place s1
           in case wallTracking cfg s1 of
                Inl err \<Rightarrow> (s1, evs1 @ [Feedback feedback_end'], Aborted err)
              | Inr (s2, evs2) \<Rightarrow>
                  (let (s3, evs3, x) = execute_loop cfg ts feedback_end' s2
                   in (s3, evs1 @ [Feedback feedback_end'] @ evs2 @ evs3, x))))"

definition execute :: "Config \<Rightarrow> tick list \<Rightarrow> State \<Rightarrow> State \<times> event list \<times> exit" where
  "execute cfg ts s = execute_loop cfg ts False s"

text \<open>The labels published on the detection topic, in order.\<close>

definition detection_labels :: "event list \<Rightarrow> string list" where
  "detection_labels evs =
     concat (map (\<lambda>ev. case ev of OpenPlaceDetection l \<Rightarrow> [l] | _ \<Rightarrow> []) evs)"

subsection \<open>Concrete inputs\<close>

text \<open>
  A configuration with distinct bounds (linear at most 1, angular within \<open>[-2, 1]\<close>),
  a sampling period of 1 and a purely proportional controller.
\<close>

definition example_cfg :: Config where
  "example_cfg =
     \<lparr>max_linear_vel = 1, max_angular_vel = 1, min_angular_vel = - 2,
      distance_from_wall = 1, distance_to_stop = 1 / 2, sampling_rate = 1,
      kp = 1, ki = 0, kd = 0, start_deg_lateral = 30, end_deg_lateral = 60,
      stop_ray_th = 1 / 2, wheel_separation = 1 / 4, distance_to_skip = 1,
      cmd_vel_topic_name = ''cmd_vel'', open_place_distance = 3\<rparr>"

text \<open>A scan of a plain corridor: no gap, nothing ahead, the wall at 1.25 on the left,
  no open sector.\<close>

definition corridor_scan :: ScanData where
  "corridor_scan =
     \<lparr>conflictCheck = (\<lambda>deg th. False), thresholdCheck = (\<lambda>deg th. False),
      frontWallCheck = (\<lambda>deg dist. 0), noiseCheck = (\<lambda>deg. False),
      leftWallCheck = (\<lambda>lo hi. 5 / 4), openPlaceCheck = (\<lambda>lo hi dist. 0)\<rparr>"

text \<open>The corridor with openness score \<open>x\<close> over the full frontal sector.\<close>

definition score_scan :: "real \<Rightarrow> ScanData" where
  "score_scan x =
     corridor_scan\<lparr>openPlaceCheck := (\<lambda>lo hi dist. if lo = - 90 \<and> hi = 90 then x else 0)\<rparr>"

text \<open>The corridor with openness scores \<open>f\<close>, \<open>l\<close>, \<open>r\<close> in the front, left and right
  sectors.\<close>

definition sector_scan :: "real \<Rightarrow> real \<Rightarrow> real \<Rightarrow> ScanData" where
  "sector_scan f l r =
     corridor_scan\<lparr>openPlaceCheck :=
       (\<lambda>lo hi dist. if lo = - 15 \<and> hi = 15 then f
                      else if lo = 15 \<and> hi = 45 then l
                      else if lo = - 45 \<and> hi = - 15 then r else 0)\<rparr>"

definition run_tick :: tick where
  "run_tick = \<lparr>inbound = [], ok = True, ok_after = True, is_canceling = False\<rparr>"

definition cancel_tick :: tick where
  "cancel_tick = \<lparr>inbound = [], ok = True, ok_after = True, is_canceling = True\<rparr>"

text \<open>The corridor with a wall right ahead: every front ray is below the stop distance.\<close>

definition blocked_scan :: ScanData where
  "blocked_scan = corridor_scan\<lparr>frontWallCheck := (\<lambda>deg dist. 1)\<rparr>"

text \<open>The node after that scan, indoors, and after a position fix followed by that scan.\<close>

definition indoor_blocked :: State where
  "indoor_blocked = fst (serve example_cfg [Scan blocked_scan] (WallTracking_new 0 0))"

definition outdoor_blocked :: State where
  "outdoor_blocked = fst (serve example_cfg [Gnss 2, Scan blocked_scan] (WallTracking_new 0 0))"

text \<open>Angular velocity limited to 0.4 on either side.\<close>

definition gentle_cfg :: Config where
  "gentle_cfg = example_cfg\<lparr>max_angular_vel := 2 / 5, min_angular_vel := - (2 / 5)\<rparr>"

text \<open>Angular bounds \<open>[-2, -1]\<close>: zero is not among the angular velocities allowed.\<close>

definition right_only_cfg :: Config where
  "right_only_cfg = example_cfg\<lparr>max_angular_vel := - 1\<rparr>"

text \<open>A negative bound on the linear velocity.\<close>

definition reverse_cfg :: Config where
  "reverse_cfg = example_cfg\<lparr>max_linear_vel := - 1\<rparr>"

text \<open>A purely integral controller.\<close>

definition integral_cfg :: Config where
  "integral_cfg = example_cfg\<lparr>kp := 0, ki := 1\<rparr>"

text \<open>The corridor with a gap on the left that the noise check corroborates.\<close>

definition gap_scan :: ScanData where
  "gap_scan = corridor_scan\<lparr>conflictCheck := (\<lambda>deg th. True), noiseCheck := (\<lambda>deg. True)\<rparr>"

definition indoor_gap :: State where
  "indoor_gap = fst (serve example_cfg [Scan gap_scan] (WallTracking_new 0 0))"

text \<open>The node outdoors, after a scan with the three sector scores \<open>f\<close>, \<open>l\<close>, \<open>r\<close>.\<close>

definition outdoor_sectors :: "real \<Rightarrow> real \<Rightarrow> real \<Rightarrow> State" where
  "outdoor_sectors f l r =
     fst (serve example_cfg [Gnss 2, Scan (sector_scan f l r)] (WallTracking_new 0 0))"

text \<open>The node outdoors, after a scan that is open all around: the flag is set.\<close>

definition arrived_state :: State where
  "arrived_state = fst (serve example_cfg [Gnss 2, Scan (score_scan 1)] (WallTracking_new 0 0))"

text \<open>The process shuts down; \<open>again\<close> is the answer of the second \<^verbatim>\<open>rclcpp::ok()\<close>.\<close>

definition shutdown_tick :: "bool \<Rightarrow> tick" where
  "shutdown_tick again = \<lparr>inbound = [], ok = False, ok_after = again, is_canceling = False\<rparr>"

text \<open>A first execution: a scan arrives, one cycle runs, then the goal is cancelled.\<close>

definition first_run :: "tick list" where
  "first_run = [run_tick\<lparr>inbound := [Scan corridor_scan]\<rparr>, cancel_tick]"

definition after_first_run :: State where
  "after_first_run = fst (execute integral_cfg first_run (WallTracking_new 0 0))"

text \<open>
  The result of a cycle with the label replaced by "Not open place" and the mode set to
  that of \<open>s\<close>; it relates the outdoor fallback to the indoor cycle on the same scan.
\<close>

definition not_open_place_of ::
    "State \<Rightarrow> error + (State \<times> event list) \<Rightarrow> error + (State \<times> event list)" where
  "not_open_place_of s res =
     map_sum id (\<lambda>(st, evs). (st\<lparr>outdoor := outdoor s\<rparr>,
                               butlast evs @ [OpenPlaceDetection ''Not open place''])) res"

section \<open>Properties\<close>

subsection \<open>The subscriptions\<close>

lemma scan_callback_flag:
  "open_place (fst (scan_callback cfg msg s)) =
     (outdoor s \<and>
      (if open_place s then 0.4 \<le> openPlaceCheck msg (- 90) 90 (open_place_distance cfg)
       else 0.7 \<le> openPlaceCheck msg (- 90) 90 (open_place_distance cfg)))"
  by (simp add: scan_callback_def Let_def)

lemma scan_callback_outdoor: "outdoor (fst (scan_callback cfg msg s)) = outdoor s"
  by (simp add: scan_callback_def Let_def)

lemma scan_callback_ei: "ei (fst (scan_callback cfg msg s)) = ei s"
  by (simp add: scan_callback_def Let_def)

lemma scan_callback_events:
  "snd (scan_callback cfg msg s) = [OpenPlaceArrived (open_place (fst (scan_callback cfg msg s)))]"
  by (simp add: scan_callback_def Let_def pub_open_place_arrived_def)

lemma serve_Scan:
  "serve cfg (Scan msg # ms) s =
     (fst (serve cfg ms (fst (scan_callback cfg msg s))),
      OpenPlaceArrived (open_place (fst (scan_callback cfg msg s)))
        # snd (serve cfg ms (fst (scan_callback cfg msg s))))"
  using scan_callback_events [of cfg msg s]
  by (simp add: split_def Let_def)

lemma score_scan_score: "openPlaceCheck (score_scan x) (- 90) 90 d = x"
  by (simp add: score_scan_def)

text \<open>
  Claim C3. On every scan the open-place flag is recomputed from the mode and the old
  flag: indoors it becomes false; outdoors a false flag becomes true exactly when the
  openness score over \<open>[-90, 90]\<close> is at least 0.7, and a true flag stays true exactly
  when the score is at least 0.4. Hence, outdoors and starting from false, the scores
  0.5, 0.75, 0.5, 0.35, 0.5 publish the flags false, true, true, false, false.
\<close>

theorem C3_open_place_hysteresis:
  "open_place (fst (scan_callback cfg msg s)) =
     (outdoor s \<and>
      (if open_place s then 0.4 \<le> openPlaceCheck msg (- 90) 90 (open_place_distance cfg)
       else 0.7 \<le> openPlaceCheck msg (- 90) 90 (open_place_distance cfg)))
   \<and> (outdoor s \<and> \<not> open_place s \<longrightarrow>
        snd (serve cfg (map (\<lambda>x. Scan (score_scan x)) [0.5, 0.75, 0.5, 0.35, 0.5]) s) =
          map OpenPlaceArrived [False, True, True, False, False])"
  by (simp only: scan_callback_flag)
     (simp add: serve_Scan scan_callback_flag scan_callback_outdoor score_scan_score
           del: serve.simps(2))

theorem C3_open_place_hysteresis_witness:
  "outdoor (gnss_callback 2 (WallTracking_new 0 0))
   \<and> \<not> open_place (gnss_callback 2 (WallTracking_new 0 0))
   \<and> snd (serve example_cfg (map (\<lambda>x. Scan (score_scan x)) [0.5, 0.75, 0.5, 0.35, 0.5])
            (gnss_callback 2 (WallTracking_new 0 0))) =
          map OpenPlaceArrived [False, True, True, False, False]
   \<and> \<not> open_place (fst (scan_callback example_cfg (score_scan 1) (WallTracking_new 0 0)))"
  using C3_open_place_hysteresis [of example_cfg "score_scan 1" "gnss_callback 2 (WallTracking_new 0 0)"]
        C3_open_place_hysteresis [of example_cfg "score_scan 1" "WallTracking_new 0 0"]
  by (simp add: gnss_callback_def COVARIANCE_TYPE_UNKNOWN_def WallTracking_new_def
        init_variable_def)

subsection \<open>The controller and the command clamp\<close>

text \<open>
  Claim C8. With a sampling period other than zero (the division needs it), the
  controller takes \<open>e\<close> as the measured distance minus the target standoff, adds
  \<open>e\<close> times the period to the accumulator, takes \<open>ed\<close> as \<open>e\<close> over the period and
  returns \<open>kp * e + ki * ei + kd * ed\<close> with the new accumulator, unclamped. With
  \<open>kp = 1\<close>, \<open>ki = kd = 0\<close>, period 1, standoff 1 and input 1.5 it returns 0.5.
\<close>

theorem C8_lateral_pid_control:
  assumes "sampling_rate cfg \<noteq> 0"
  shows "lateral_pid_control cfg measured s =
           Inr (kp cfg * (measured - distance_from_wall cfg)
                + ki cfg * (ei s + (measured - distance_from_wall cfg) * sampling_rate cfg)
                + kd cfg * ((measured - distance_from_wall cfg) / sampling_rate cfg),
                s\<lparr>ei := ei s + (measured - distance_from_wall cfg) * sampling_rate cfg\<rparr>)"
  using assms by (simp add: lateral_pid_control_def Let_def mult.commute)

theorem C8_lateral_pid_control_witness:
  "sampling_rate example_cfg \<noteq> 0
   \<and> kp example_cfg = 1 \<and> ki example_cfg = 0 \<and> kd example_cfg = 0
   \<and> sampling_rate example_cfg = 1 \<and> distance_from_wall example_cfg = 1
   \<and> map_sum id fst (lateral_pid_control example_cfg (3 / 2) (WallTracking_new 0 0)) = Inr (1 / 2)"
  using C8_lateral_pid_control [of example_cfg "3 / 2" "WallTracking_new 0 0"]
  by (simp add: example_cfg_def)

text \<open>
  Claim C9. The published linear velocity is the smaller of the requested one and
  \<open>max_linear_vel\<close>, so a negative request goes through as it is; when
  \<open>min_angular_vel \<le> max_angular_vel\<close> the published angular velocity is the requested
  one clamped to the closed interval between the two. Requesting linear 10 under a
  maximum of 1 publishes 1; requesting angular -5 under the bounds \<open>[-2, 1]\<close>
  publishes -2.
\<close>

theorem C9_pub_cmd_vel_clamp:
  assumes "min_angular_vel cfg \<le> max_angular_vel cfg"
  shows "pub_cmd_vel cfg linear_x angular_z =
           CmdVel (min linear_x (max_linear_vel cfg))
             (if angular_z < min_angular_vel cfg then min_angular_vel cfg
              else if max_angular_vel cfg < angular_z then max_angular_vel cfg
              else angular_z)"
  using assms by (simp add: pub_cmd_vel_def min_def max_def)

theorem C9_pub_cmd_vel_clamp_witness:
  "min_angular_vel example_cfg \<le> max_angular_vel example_cfg
   \<and> max_linear_vel example_cfg = 1
   \<and> min_angular_vel example_cfg = - 2 \<and> max_angular_vel example_cfg = 1
   \<and> pub_cmd_vel example_cfg 10 (- 5) = CmdVel 1 (- 2)
   \<and> pub_cmd_vel example_cfg (- 3) (1 / 2) = CmdVel (- 3) (1 / 2)"
  using C9_pub_cmd_vel_clamp [of example_cfg 10 "- 5"]
        C9_pub_cmd_vel_clamp [of example_cfg "- 3" "1 / 2"]
  by (simp add: example_cfg_def)

subsection \<open>The emergency branch\<close>

lemma DEG2RAD_m45: "DEG2RAD (- 45) = - (pi / 4)"
  by (simp add: DEG2RAD_def)

lemma pub_cmd_vel_exact:
  "linear_x \<le> max_linear_vel cfg \<Longrightarrow> min_angular_vel cfg \<le> angular_z \<Longrightarrow>
   angular_z \<le> max_angular_vel cfg \<Longrightarrow>
   pub_cmd_vel cfg linear_x angular_z = CmdVel linear_x angular_z"
  by (simp add: pub_cmd_vel_def)

lemma wallTracking_emergency:
  assumes "scan_data s = Some sd"
      and "stop_ray_th cfg \<le> frontWallCheck sd (fwc_deg s) (distance_to_stop cfg)"
  shows "wallTracking cfg s =
           Inr (s, [pub_cmd_vel cfg (max_linear_vel cfg / 4) (DEG2RAD (- 45)), SleepFor 2000,
                    OpenPlaceDetection ''Indoor''])"
  using assms
  by (simp add: wallTracking_def wallTracking_on_def Let_def pub_open_place_detection_def)

lemma blocked_states:
  "scan_data indoor_blocked = Some blocked_scan" "\<not> outdoor indoor_blocked"
  "scan_data outdoor_blocked = Some blocked_scan" "outdoor outdoor_blocked"
  "fwc_deg indoor_blocked = 0" "fwc_deg outdoor_blocked = 0"
  by (simp_all add: indoor_blocked_def outdoor_blocked_def gnss_callback_def
        COVARIANCE_TYPE_UNKNOWN_def WallTracking_new_def init_variable_def scan_callback_def Let_def)

text \<open>
  Claim C5, as amended. In a cycle whose front-wall fraction is at least
  \<open>stop_ray_th\<close>, in either mode, the engine hands \<open>(max_linear_vel / 4, DEG2RAD (-45))\<close>
  to the command clamp, then dwells 2000 ms, then publishes the label; it does nothing
  else and leaves the state as it was. The published command is the clamped one; it is
  exactly \<open>(max_linear_vel / 4, -\<pi>/4)\<close> when \<open>0 \<le> max_linear_vel\<close> and
  \<open>min_angular_vel \<le> -\<pi>/4 \<le> max_angular_vel\<close>.
\<close>

theorem C5_emergency_dwell:
  assumes "scan_data s = Some sd"
      and "stop_ray_th cfg \<le> frontWallCheck sd (fwc_deg s) (distance_to_stop cfg)"
  shows "wallTracking cfg s =
           Inr (s, [pub_cmd_vel cfg (max_linear_vel cfg / 4) (DEG2RAD (- 45)), SleepFor 2000,
                    OpenPlaceDetection ''Indoor''])
         \<and> (0 \<le> max_linear_vel cfg \<and> min_angular_vel cfg \<le> - (pi / 4)
              \<and> - (pi / 4) \<le> max_angular_vel cfg
              \<longrightarrow> pub_cmd_vel cfg (max_linear_vel cfg / 4) (DEG2RAD (- 45))
                    = CmdVel (max_linear_vel cfg / 4) (- (pi / 4)))"
  using wallTracking_emergency [OF assms]
  by (simp add: DEG2RAD_m45 pub_cmd_vel_exact)

theorem C5_emergency_dwell_witness:
  "scan_data indoor_blocked = Some blocked_scan \<and> \<not> outdoor indoor_blocked
   \<and> scan_data outdoor_blocked = Some blocked_scan \<and> outdoor outdoor_blocked
   \<and> stop_ray_th example_cfg \<le> frontWallCheck blocked_scan 0 (distance_to_stop example_cfg)
   \<and> 0 \<le> max_linear_vel example_cfg \<and> min_angular_vel example_cfg \<le> - (pi / 4)
   \<and> - (pi / 4) \<le> max_angular_vel example_cfg
   \<and> map_sum id snd (wallTracking example_cfg indoor_blocked)
       = Inr [CmdVel (1 / 4) (- (pi / 4)), SleepFor 2000, OpenPlaceDetection ''Indoor'']
   \<and> map_sum id snd (wallTracking example_cfg outdoor_blocked)
       = Inr [CmdVel (1 / 4) (- (pi / 4)), SleepFor 2000, OpenPlaceDetection ''Indoor'']"
proof -
  have b: "stop_ray_th example_cfg \<le> frontWallCheck blocked_scan 0 (distance_to_stop example_cfg)"
    by (simp add: example_cfg_def blocked_scan_def corridor_scan_def)
  have p: "min_angular_vel example_cfg \<le> - (pi / 4)" "- (pi / 4) \<le> max_angular_vel example_cfg"
  proof -
    have "- 2 \<le> - (pi / 4)" using pi_less_4 by linarith
    then show "min_angular_vel example_cfg \<le> - (pi / 4)" by (simp add: example_cfg_def)
    have "- (pi / 4) \<le> 1" using pi_ge_zero by linarith
    then show "- (pi / 4) \<le> max_angular_vel example_cfg" by (simp add: example_cfg_def)
  qed
  have m: "0 \<le> max_linear_vel example_cfg" "max_linear_vel example_cfg = 1"
    by (simp_all add: example_cfg_def)
  show ?thesis
    using C5_emergency_dwell [of indoor_blocked blocked_scan example_cfg]
          C5_emergency_dwell [of outdoor_blocked blocked_scan example_cfg] b p m
    by (simp add: blocked_states)
qed

text \<open>
  The claim as written fails where the clamp bites. With the angular velocity limited to
  0.4 on either side the emergency turn is published as -0.4, and with the declared
  default parameters (all zero) as 0, while -45 degrees is about -0.785 radians.
\<close>

theorem C5_counterexample:
  "map_sum id snd (wallTracking gentle_cfg indoor_blocked)
     = Inr [CmdVel (1 / 4) (- (2 / 5)), SleepFor 2000, OpenPlaceDetection ''Indoor'']
   \<and> DEG2RAD (- 45) < - (2 / 5)
   \<and> map_sum id snd (wallTracking set_param indoor_blocked)
     = Inr [CmdVel 0 0, SleepFor 2000, OpenPlaceDetection ''Indoor'']
   \<and> DEG2RAD (- 45) < 0"
proof -
  have d: "DEG2RAD (- 45) < - (2 / 5)" "DEG2RAD (- 45) < 0"
    using pi_ge_two by (simp_all add: DEG2RAD_def)
  have g: "stop_ray_th gentle_cfg \<le> frontWallCheck blocked_scan 0 (distance_to_stop gentle_cfg)"
          "stop_ray_th set_param \<le> frontWallCheck blocked_scan 0 (distance_to_stop set_param)"
    by (simp_all add: gentle_cfg_def example_cfg_def set_param_def blocked_scan_def
          corridor_scan_def)
  have "wallTracking gentle_cfg indoor_blocked =
           Inr (indoor_blocked,
                [pub_cmd_vel gentle_cfg (max_linear_vel gentle_cfg / 4) (DEG2RAD (- 45)),
                 SleepFor 2000, OpenPlaceDetection ''Indoor''])"
    using g by (intro wallTracking_emergency) (simp_all add: blocked_states)
  moreover have "wallTracking set_param indoor_blocked =
           Inr (indoor_blocked,
                [pub_cmd_vel set_param (max_linear_vel set_param / 4) (DEG2RAD (- 45)),
                 SleepFor 2000, OpenPlaceDetection ''Indoor''])"
    using g by (intro wallTracking_emergency) (simp_all add: blocked_states)
  ultimately show ?thesis
    using d by (simp add: pub_cmd_vel_def gentle_cfg_def example_cfg_def set_param_def)
qed

text \<open>
  Claim C10. Outdoors, in a cycle that takes the emergency branch, the one label
  published is "Indoor", and it is the last thing the cycle sends: the branch does not
  assign the label, which keeps its initial value.
\<close>

theorem C10_outdoor_emergency_label:
  assumes "scan_data s = Some sd" and "outdoor s"
      and "stop_ray_th cfg \<le> frontWallCheck sd (fwc_deg s) (distance_to_stop cfg)"
  shows "\<exists>evs. wallTracking cfg s = Inr (s, evs) \<and> last evs = OpenPlaceDetection ''Indoor''
           \<and> detection_labels evs = [''Indoor'']"
  using wallTracking_emergency [OF assms(1) assms(3)]
  by (simp add: detection_labels_def pub_cmd_vel_def)

theorem C10_outdoor_emergency_label_witness:
  "scan_data outdoor_blocked = Some blocked_scan
   \<and> outdoor outdoor_blocked
   \<and> stop_ray_th example_cfg \<le> frontWallCheck blocked_scan 0 (distance_to_stop example_cfg)
   \<and> map_sum id (detection_labels \<circ> snd) (wallTracking example_cfg outdoor_blocked)
       = Inr [''Indoor'']"
proof -
  have b: "stop_ray_th example_cfg \<le> frontWallCheck blocked_scan 0 (distance_to_stop example_cfg)"
    by (simp add: example_cfg_def blocked_scan_def corridor_scan_def)
  show ?thesis
    using C10_outdoor_emergency_label [of outdoor_blocked blocked_scan example_cfg] b
    by (auto simp add: blocked_states)
qed

subsection \<open>The indoor gap skip\<close>

lemma example_cfg_vals:
  "stop_ray_th example_cfg = 1 / 2" "sampling_rate example_cfg = 1" "kp example_cfg = 1"
  "ki example_cfg = 0" "kd example_cfg = 0" "distance_from_wall example_cfg = 1"
  "max_linear_vel example_cfg = 1" "max_angular_vel example_cfg = 1"
  "min_angular_vel example_cfg = - 2"
  by (simp_all add: example_cfg_def)

lemma indoor_gap_state:
  "scan_data indoor_gap = Some gap_scan" "\<not> outdoor indoor_gap"
  "fwc_deg indoor_gap = 0" "flw_deg indoor_gap = 0"
  by (simp_all add: indoor_gap_def WallTracking_new_def init_variable_def scan_callback_def Let_def)

lemma gap_scan_answers:
  "frontWallCheck gap_scan a b = 0" "conflictCheck gap_scan a b" "\<not> thresholdCheck gap_scan a b"
  "noiseCheck gap_scan a"
  by (simp_all add: gap_scan_def corridor_scan_def)

text \<open>
  Claim C7, as amended. Indoors, when the front-wall fraction is below \<open>stop_ray_th\<close>,
  a gap shows at the start of the lateral sector or at 90 degrees, there is no front-left
  wall and the noise check holds, the engine hands \<open>(max_linear_vel, 0)\<close> to the
  command clamp, publishes the label "Indoor" and leaves the state, the integral
  accumulator with it, as it was: the controller does not run. The published linear
  velocity is \<open>max_linear_vel\<close>; the published angular velocity is 0 clamped to the
  angular bounds, so it is 0 when \<open>min_angular_vel \<le> 0 \<le> max_angular_vel\<close>.
\<close>

theorem C7_indoor_gap_skip:
  assumes "scan_data s = Some sd" and "\<not> outdoor s"
      and "frontWallCheck sd (fwc_deg s) (distance_to_stop cfg) < stop_ray_th cfg"
      and "conflictCheck sd (real_of_int (start_deg_lateral cfg)) (distance_from_wall cfg * 2)
           \<or> conflictCheck sd 90 (distance_from_wall cfg * 2)"
      and "\<not> thresholdCheck sd (flw_deg s) 1.87"
      and "noiseCheck sd (flw_deg s)"
  shows "wallTracking cfg s =
           Inr (s, [pub_cmd_vel cfg (max_linear_vel cfg) 0, OpenPlaceDetection ''Indoor''])
         \<and> (\<exists>ang. pub_cmd_vel cfg (max_linear_vel cfg) 0 = CmdVel (max_linear_vel cfg) ang)
         \<and> (min_angular_vel cfg \<le> 0 \<and> 0 \<le> max_angular_vel cfg
              \<longrightarrow> pub_cmd_vel cfg (max_linear_vel cfg) 0 = CmdVel (max_linear_vel cfg) 0)"
  using assms
  by (simp add: wallTracking_def wallTracking_on_def Let_def pub_open_place_detection_def
        pub_cmd_vel_exact) (simp add: pub_cmd_vel_def)

theorem C7_indoor_gap_skip_witness:
  "scan_data indoor_gap = Some gap_scan \<and> \<not> outdoor indoor_gap
   \<and> frontWallCheck gap_scan (fwc_deg indoor_gap) (distance_to_stop example_cfg) < stop_ray_th example_cfg
   \<and> conflictCheck gap_scan (real_of_int (start_deg_lateral example_cfg)) (distance_from_wall example_cfg * 2)
   \<and> \<not> thresholdCheck gap_scan (flw_deg indoor_gap) 1.87
   \<and> noiseCheck gap_scan (flw_deg indoor_gap)
   \<and> min_angular_vel example_cfg \<le> 0 \<and> 0 \<le> max_angular_vel example_cfg
   \<and> map_sum id snd (wallTracking example_cfg (indoor_gap\<lparr>ei := 7\<rparr>))
        = Inr [CmdVel 1 0, OpenPlaceDetection ''Indoor'']
   \<and> map_sum id (ei \<circ> fst) (wallTracking example_cfg (indoor_gap\<lparr>ei := 7\<rparr>)) = Inr 7"
proof -
  have c: "frontWallCheck gap_scan (fwc_deg indoor_gap) (distance_to_stop example_cfg) < stop_ray_th example_cfg"
          "min_angular_vel example_cfg \<le> 0" "0 \<le> max_angular_vel example_cfg"
          "max_linear_vel example_cfg = 1"
    by (simp_all add: gap_scan_answers example_cfg_def)
  show ?thesis
    using C7_indoor_gap_skip [of "indoor_gap\<lparr>ei := 7\<rparr>" gap_scan example_cfg] c
    by (simp add: indoor_gap_state gap_scan_answers)
qed

text \<open>
  With the angular bounds \<open>[-2, -1]\<close> the gap skip publishes the angular velocity -1,
  not 0.
\<close>

theorem C7_counterexample:
  "\<not> outdoor indoor_gap
   \<and> frontWallCheck gap_scan (fwc_deg indoor_gap) (distance_to_stop right_only_cfg) < stop_ray_th right_only_cfg
   \<and> conflictCheck gap_scan (real_of_int (start_deg_lateral right_only_cfg)) (distance_from_wall right_only_cfg * 2)
   \<and> \<not> thresholdCheck gap_scan (flw_deg indoor_gap) 1.87
   \<and> noiseCheck gap_scan (flw_deg indoor_gap)
   \<and> map_sum id snd (wallTracking right_only_cfg indoor_gap)
        = Inr [CmdVel 1 (- 1), OpenPlaceDetection ''Indoor'']"
  by (simp add: indoor_gap_state gap_scan_answers wallTracking_def wallTracking_on_def Let_def
        pub_open_place_detection_def pub_cmd_vel_def right_only_cfg_def example_cfg_def)

subsection \<open>The outdoor sector choice\<close>

lemma open_place_evals_eq:
  "open_place_evals cfg sd =
     [if openPlaceCheck sd (- 15) 15 (open_place_distance cfg) < 0.7 then - 1
      else openPlaceCheck sd (- 15) 15 (open_place_distance cfg),
      if openPlaceCheck sd 15 45 (open_place_distance cfg) < 0.7 then - 1
      else openPlaceCheck sd 15 45 (open_place_distance cfg),
      if openPlaceCheck sd (- 45) (- 15) (open_place_distance cfg) < 0.7 then - 1
      else openPlaceCheck sd (- 45) (- 15) (open_place_distance cfg),
      0]"
  by (simp add: open_place_evals_def degs_def Let_def numeral_eq_Suc)

lemma max_element_4:
  "max_element [a, b, c, d] =
     (if b \<le> a \<and> c \<le> a \<and> d \<le> a then 0
      else if a < b \<and> c \<le> b \<and> d \<le> b then 1
      else if a < c \<and> b < c \<and> d \<le> c then 2
      else 3)"
  by (auto simp add: max_element_def)

lemma max_index_front:
  assumes "0.7 \<le> f" "l \<le> f" "r \<le> f"
  shows "max_element [if f < 0.7 then - 1 else f, if l < 0.7 then - 1 else l,
                      if r < 0.7 then - 1 else r, 0] = (0::nat)"
  using assms by (simp add: max_element_4)

lemma max_index_left:
  assumes "0.7 \<le> l" "f < l" "r \<le> l"
  shows "max_element [if f < 0.7 then - 1 else f, if l < 0.7 then - 1 else l,
                      if r < 0.7 then - 1 else r, 0] = 1"
  using assms by (simp add: max_element_4)

lemma max_index_right:
  assumes "0.7 \<le> r" "f < r" "l < r"
  shows "max_element [if f < 0.7 then - 1 else f, if l < 0.7 then - 1 else l,
                      if r < 0.7 then - 1 else r, 0] = 2"
  using assms by (simp add: max_element_4)

lemma max_index_none:
  assumes "f < 0.7" "l < 0.7" "r < 0.7"
  shows "max_element [if f < 0.7 then - 1 else f, if l < 0.7 then - 1 else l,
                      if r < 0.7 then - 1 else r, 0] = 3"
  using assms by (simp add: max_element_4)

lemma wallTracking_outdoor_select:
  assumes "scan_data s = Some sd" and "outdoor s"
      and "frontWallCheck sd (fwc_deg s) (distance_to_stop cfg) < stop_ray_th cfg"
      and "max_element (open_place_evals cfg sd) = i"
  shows "i = 0 \<Longrightarrow> wallTracking cfg s =
            Inr (s, [pub_cmd_vel cfg (max_linear_vel cfg) 0, OpenPlaceDetection ''Front''])"
    and "i = 1 \<Longrightarrow> wallTracking cfg s =
            Inr (s, [pub_cmd_vel cfg (max_linear_vel cfg) (max_angular_vel cfg),
                     OpenPlaceDetection ''Left''])"
    and "i = 2 \<Longrightarrow> wallTracking cfg s =
            Inr (s, [pub_cmd_vel cfg (max_linear_vel cfg) (min_angular_vel cfg),
                     OpenPlaceDetection ''Right''])"
  using assms
  by (simp_all add: wallTracking_def wallTracking_on_def Let_def pub_open_place_detection_def)

lemma wallTracking_outdoor_fallback:
  assumes "scan_data s = Some sd" and "outdoor s"
      and "frontWallCheck sd (fwc_deg s) (distance_to_stop cfg) < stop_ray_th cfg"
      and "max_element (open_place_evals cfg sd) = 3"
  shows "wallTracking cfg s = not_open_place_of s (wallTracking cfg (s\<lparr>outdoor := False\<rparr>))"
  using assms
  by (simp add: wallTracking_def wallTracking_on_def Let_def pub_open_place_detection_def
        not_open_place_of_def lateral_pid_control_def)

lemma outdoor_sectors_state:
  "scan_data (outdoor_sectors f l r) = Some (sector_scan f l r)" "outdoor (outdoor_sectors f l r)"
  "fwc_deg (outdoor_sectors f l r) = 0" "flw_deg (outdoor_sectors f l r) = 0"
  "ei (outdoor_sectors f l r) = 0"
  by (simp_all add: outdoor_sectors_def gnss_callback_def COVARIANCE_TYPE_UNKNOWN_def
        WallTracking_new_def init_variable_def scan_callback_def Let_def)

lemma sector_scan_answers:
  "openPlaceCheck (sector_scan f l r) (- 15) 15 d = f"
  "openPlaceCheck (sector_scan f l r) 15 45 d = l"
  "openPlaceCheck (sector_scan f l r) (- 45) (- 15) d = r"
  "frontWallCheck (sector_scan f l r) a b = 0"
  "\<not> conflictCheck (sector_scan f l r) a b"
  "leftWallCheck (sector_scan f l r) a b = 5 / 4"
  by (simp_all add: sector_scan_def corridor_scan_def)

text \<open>
  Claim C6, as amended. Outdoors, when the front-wall fraction is below \<open>stop_ray_th\<close>,
  the engine takes the openness fractions \<open>f\<close>, \<open>l\<close>, \<open>r\<close> of the sectors
  \<open>[-15, 15]\<close>, \<open>[15, 45]\<close>, \<open>[-45, -15]\<close>, replaces each fraction below 0.7 by -1
  and picks the first largest of the three and a final 0. Front picked: it hands
  \<open>(max_linear_vel, 0)\<close> to the command clamp, label "Front". Left picked:
  \<open>(max_linear_vel, max_angular_vel)\<close>, label "Left". Right picked:
  \<open>(max_linear_vel, min_angular_vel)\<close>, label "Right". No fraction at 0.7 or more: the
  cycle is the indoor gap-skip-or-PID cycle on the same scan with the label
  "Not open place". What is published is the clamped command: the linear velocity is
  \<open>max_linear_vel\<close>, the right turn is \<open>min_angular_vel\<close>, the left turn is
  \<open>max_angular_vel\<close> when \<open>min_angular_vel \<le> max_angular_vel\<close>, and straight ahead
  is 0 when \<open>min_angular_vel \<le> 0 \<le> max_angular_vel\<close>.
\<close>

theorem C6_outdoor_sector_choice:
  assumes "scan_data s = Some sd" and "outdoor s"
      and "frontWallCheck sd (fwc_deg s) (distance_to_stop cfg) < stop_ray_th cfg"
      and "f = openPlaceCheck sd (- 15) 15 (open_place_distance cfg)"
      and "l = openPlaceCheck sd 15 45 (open_place_distance cfg)"
      and "r = openPlaceCheck sd (- 45) (- 15) (open_place_distance cfg)"
  shows "open_place_evals cfg sd =
           [if f < 0.7 then - 1 else f, if l < 0.7 then - 1 else l, if r < 0.7 then - 1 else r, 0]
         \<and> (0.7 \<le> f \<and> l \<le> f \<and> r \<le> f \<longrightarrow>
              wallTracking cfg s =
                Inr (s, [pub_cmd_vel cfg (max_linear_vel cfg) 0, OpenPlaceDetection ''Front'']))
         \<and> (0.7 \<le> l \<and> f < l \<and> r \<le> l \<longrightarrow>
              wallTracking cfg s =
                Inr (s, [pub_cmd_vel cfg (max_linear_vel cfg) (max_angular_vel cfg),
                         OpenPlaceDetection ''Left'']))
         \<and> (0.7 \<le> r \<and> f < r \<and> l < r \<longrightarrow>
              wallTracking cfg s =
                Inr (s, [pub_cmd_vel cfg (max_linear_vel cfg) (min_angular_vel cfg),
                         OpenPlaceDetection ''Right'']))
         \<and> (f < 0.7 \<and> l < 0.7 \<and> r < 0.7 \<longrightarrow>
              wallTracking cfg s = not_open_place_of s (wallTracking cfg (s\<lparr>outdoor := False\<rparr>)))
         \<and> pub_cmd_vel cfg (max_linear_vel cfg) (min_angular_vel cfg)
             = CmdVel (max_linear_vel cfg) (min_angular_vel cfg)
         \<and> (min_angular_vel cfg \<le> max_angular_vel cfg \<longrightarrow>
              pub_cmd_vel cfg (max_linear_vel cfg) (max_angular_vel cfg)
                = CmdVel (max_linear_vel cfg) (max_angular_vel cfg))
         \<and> (min_angular_vel cfg \<le> 0 \<and> 0 \<le> max_angular_vel cfg \<longrightarrow>
              pub_cmd_vel cfg (max_linear_vel cfg) 0 = CmdVel (max_linear_vel cfg) 0)"
proof -
  have ev: "open_place_evals cfg sd =
           [if f < 0.7 then - 1 else f, if l < 0.7 then - 1 else l, if r < 0.7 then - 1 else r, 0]"
    unfolding assms(4-6) by (rule open_place_evals_eq)
  have front: "wallTracking cfg s =
                Inr (s, [pub_cmd_vel cfg (max_linear_vel cfg) 0, OpenPlaceDetection ''Front''])"
    if "0.7 \<le> f \<and> l \<le> f \<and> r \<le> f"
    using that wallTracking_outdoor_select(1) [OF assms(1-3) refl] max_index_front [of f l r]
    by (simp add: ev)
  have left: "wallTracking cfg s =
                Inr (s, [pub_cmd_vel cfg (max_linear_vel cfg) (max_angular_vel cfg),
                         OpenPlaceDetection ''Left''])"
    if "0.7 \<le> l \<and> f < l \<and> r \<le> l"
    using that wallTracking_outdoor_select(2) [OF assms(1-3) refl] max_index_left [of l f r]
    by (simp add: ev)
  have right: "wallTracking cfg s =
                Inr (s, [pub_cmd_vel cfg (max_linear_vel cfg) (min_angular_vel cfg),
                         OpenPlaceDetection ''Right''])"
    if "0.7 \<le> r \<and> f < r \<and> l < r"
    using that wallTracking_outdoor_select(3) [OF assms(1-3) refl] max_index_right [of r f l]
    by (simp add: ev)
  have none: "wallTracking cfg s = not_open_place_of s (wallTracking cfg (s\<lparr>outdoor := False\<rparr>))"
    if "f < 0.7 \<and> l < 0.7 \<and> r < 0.7"
    using that wallTracking_outdoor_fallback [OF assms(1-3)] max_index_none [of f l r]
    by (simp add: ev)
  have clamp: "pub_cmd_vel cfg (max_linear_vel cfg) (min_angular_vel cfg)
             = CmdVel (max_linear_vel cfg) (min_angular_vel cfg)"
     "min_angular_vel cfg \<le> max_angular_vel cfg \<longrightarrow>
              pub_cmd_vel cfg (max_linear_vel cfg) (max_angular_vel cfg)
                = CmdVel (max_linear_vel cfg) (max_angular_vel cfg)"
     "min_angular_vel cfg \<le> 0 \<and> 0 \<le> max_angular_vel cfg \<longrightarrow>
              pub_cmd_vel cfg (max_linear_vel cfg) 0 = CmdVel (max_linear_vel cfg) 0"
    by (simp_all add: pub_cmd_vel_def)
  from ev front left right none clamp show ?thesis by blast
qed

theorem C6_outdoor_sector_choice_witness:
  "outdoor (outdoor_sectors (9 / 10) (4 / 5) (1 / 10))
   \<and> frontWallCheck (sector_scan (9 / 10) (4 / 5) (1 / 10)) 0 (distance_to_stop example_cfg) < stop_ray_th example_cfg
   \<and> min_angular_vel example_cfg \<le> 0 \<and> 0 \<le> max_angular_vel example_cfg
   \<and> wallTracking example_cfg (outdoor_sectors (9 / 10) (4 / 5) (1 / 10))
       = Inr (outdoor_sectors (9 / 10) (4 / 5) (1 / 10), [CmdVel 1 0, OpenPlaceDetection ''Front''])
   \<and> wallTracking example_cfg (outdoor_sectors (4 / 5) (9 / 10) (3 / 4))
       = Inr (outdoor_sectors (4 / 5) (9 / 10) (3 / 4), [CmdVel 1 1, OpenPlaceDetection ''Left''])
   \<and> wallTracking example_cfg (outdoor_sectors (1 / 10) (3 / 4) (9 / 10))
       = Inr (outdoor_sectors (1 / 10) (3 / 4) (9 / 10), [CmdVel 1 (- 2), OpenPlaceDetection ''Right''])
   \<and> map_sum id snd (wallTracking example_cfg (outdoor_sectors (1 / 2) (3 / 5) (1 / 10)))
       = Inr [CmdVel 1 (1 / 4), OpenPlaceDetection ''Not open place'']"
proof -
  have ind: "wallTracking example_cfg ((outdoor_sectors (1 / 2) (3 / 5) (1 / 10))\<lparr>outdoor := False\<rparr>)
               = Inr ((outdoor_sectors (1 / 2) (3 / 5) (1 / 10))\<lparr>outdoor := False, ei := 1 / 4\<rparr>,
                      [CmdVel 1 (1 / 4), OpenPlaceDetection ''Indoor''])"
    by (simp add: wallTracking_def wallTracking_on_def Let_def outdoor_sectors_state
          sector_scan_answers example_cfg_vals lateral_pid_control_def pub_cmd_vel_def
          pub_open_place_detection_def)
  show ?thesis
    using C6_outdoor_sector_choice [of "outdoor_sectors (9 / 10) (4 / 5) (1 / 10)" "sector_scan (9 / 10) (4 / 5) (1 / 10)" example_cfg "9 / 10" "4 / 5" "1 / 10"]
          C6_outdoor_sector_choice [of "outdoor_sectors (4 / 5) (9 / 10) (3 / 4)" "sector_scan (4 / 5) (9 / 10) (3 / 4)" example_cfg "4 / 5" "9 / 10" "3 / 4"]
          C6_outdoor_sector_choice [of "outdoor_sectors (1 / 10) (3 / 4) (9 / 10)" "sector_scan (1 / 10) (3 / 4) (9 / 10)" example_cfg "1 / 10" "3 / 4" "9 / 10"]
          C6_outdoor_sector_choice [of "outdoor_sectors (1 / 2) (3 / 5) (1 / 10)" "sector_scan (1 / 2) (3 / 5) (1 / 10)" example_cfg "1 / 2" "3 / 5" "1 / 10"]
    by (simp add: outdoor_sectors_state sector_scan_answers example_cfg_vals ind
          not_open_place_of_def)
qed

text \<open>
  With the angular bounds \<open>[-2, -1]\<close> and only the front sector open, the command
  published under the label "Front" turns at -1, not 0.
\<close>

theorem C6_counterexample:
  "outdoor (outdoor_sectors (9 / 10) 0 0)
   \<and> frontWallCheck (sector_scan (9 / 10) 0 0) (fwc_deg (outdoor_sectors (9 / 10) 0 0))
        (distance_to_stop right_only_cfg) < stop_ray_th right_only_cfg
   \<and> max_linear_vel right_only_cfg = 1
   \<and> map_sum id snd (wallTracking right_only_cfg (outdoor_sectors (9 / 10) 0 0))
       = Inr [CmdVel 1 (- 1), OpenPlaceDetection ''Front'']"
  by (simp add: wallTracking_def wallTracking_on_def Let_def outdoor_sectors_state
        sector_scan_answers open_place_evals_eq max_element_4 right_only_cfg_def example_cfg_def
        pub_cmd_vel_def pub_open_place_detection_def)

subsection \<open>The execution of a goal\<close>

text \<open>
  Claim C4, as amended. In any iteration of the loop with a cancellation pending, the
  task reports Canceled with the result false, whatever the open-place flag is, then
  hands \<open>(0, 0)\<close> to the command clamp and returns: no feedback, no decision cycle, and
  no change of the state by the iteration itself. The published stop command is the
  clamped
  one; it is \<open>(0, 0)\<close> when \<open>0 \<le> max_linear_vel\<close> and
  \<open>min_angular_vel \<le> 0 \<le> max_angular_vel\<close>.
\<close>

theorem C4_cancel:
  assumes "ok t" and "is_canceling t"
  shows "execute_loop cfg (t # ts) feedback_end s =
           (fst (serve cfg (inbound t) s),
            snd (serve cfg (inbound t) s) @ [GoalCanceled False, pub_cmd_vel cfg 0 0], Returned)
         \<and> (inbound t = [] \<longrightarrow>
              execute_loop cfg (t # ts) feedback_end s =
                (s, [GoalCanceled False, pub_cmd_vel cfg 0 0], Returned))
         \<and> (0 \<le> max_linear_vel cfg \<and> min_angular_vel cfg \<le> 0 \<and> 0 \<le> max_angular_vel cfg
              \<longrightarrow> pub_cmd_vel cfg 0 0 = CmdVel 0 0)"
  using assms by (simp add: split_def Let_def pub_cmd_vel_exact)

theorem C4_cancel_witness:
  "ok cancel_tick \<and> is_canceling cancel_tick \<and> inbound cancel_tick = []
   \<and> 0 \<le> max_linear_vel example_cfg \<and> min_angular_vel example_cfg \<le> 0
   \<and> 0 \<le> max_angular_vel example_cfg
   \<and> snd (execute example_cfg [cancel_tick, run_tick] (WallTracking_new 0 0))
       = ([GoalCanceled False, CmdVel 0 0], Returned)
   \<and> snd (execute example_cfg [cancel_tick, run_tick]
             ((WallTracking_new 0 0)\<lparr>open_place := True\<rparr>))
       = ([GoalCanceled False, CmdVel 0 0], Returned)"
proof -
  have c: "ok cancel_tick" "is_canceling cancel_tick" "inbound cancel_tick = []"
    "0 \<le> max_linear_vel example_cfg" "min_angular_vel example_cfg \<le> 0"
    "0 \<le> max_angular_vel example_cfg"
    by (simp_all add: cancel_tick_def example_cfg_def)
  show ?thesis
    using C4_cancel [of cancel_tick example_cfg "[run_tick]" False "WallTracking_new 0 0"]
          C4_cancel [of cancel_tick example_cfg "[run_tick]" False
                       "(WallTracking_new 0 0)\<lparr>open_place := True\<rparr>"] c
    by (simp add: execute_def)
qed

text \<open>With \<open>max_linear_vel = -1\<close> the stop command is published as \<open>(-1, 0)\<close>.\<close>

theorem C4_counterexample:
  "ok cancel_tick \<and> is_canceling cancel_tick
   \<and> snd (execute reverse_cfg [cancel_tick] (WallTracking_new 0 0))
       = ([GoalCanceled False, CmdVel (- 1) 0], Returned)"
  by (simp add: execute_def cancel_tick_def reverse_cfg_def example_cfg_def pub_cmd_vel_def)

lemma arrived_state_open: "open_place arrived_state"
  by (simp add: arrived_state_def score_scan_def gnss_callback_def
        COVARIANCE_TYPE_UNKNOWN_def WallTracking_new_def init_variable_def scan_callback_def Let_def)

text \<open>
  Claim C2, as amended. When the loop test fails in any iteration (the process is
  shutting down) and no cancellation was handled, the task reports Succeeded only if
  the second
  \<^verbatim>\<open>rclcpp::ok()\<close>, below the loop, answers true, and the result then carries the
  constant true, not the open-place flag; if it answers false the task returns without
  reporting an outcome. No command is published on this path.
\<close>

theorem C2_fall_through:
  assumes "\<not> ok t"
  shows "execute_loop cfg (t # ts) feedback_end s =
           (fst (serve cfg (inbound t) s),
            snd (serve cfg (inbound t) s) @ (if ok_after t then [GoalSucceeded True] else []),
            Returned)"
  using assms by (simp add: split_def Let_def)

theorem C2_fall_through_witness:
  "\<not> ok (shutdown_tick True) \<and> \<not> ok (shutdown_tick False)
   \<and> snd (execute example_cfg [shutdown_tick True] arrived_state)
       = ([GoalSucceeded True], Returned)
   \<and> snd (execute example_cfg [shutdown_tick False] arrived_state) = ([], Returned)"
  using C2_fall_through [of "shutdown_tick True" example_cfg "[]" False arrived_state]
        C2_fall_through [of "shutdown_tick False" example_cfg "[]" False arrived_state]
  by (simp add: shutdown_tick_def execute_def)

text \<open>
  With the flag set and the process still down at the second test nothing is reported;
  with the flag clear and the second test passing, Succeeded carries true.
\<close>

theorem C2_counterexample:
  "open_place arrived_state
   \<and> snd (execute example_cfg [shutdown_tick False] arrived_state) = ([], Returned)
   \<and> \<not> open_place (WallTracking_new 0 0)
   \<and> snd (execute example_cfg [shutdown_tick True] (WallTracking_new 0 0))
       = ([GoalSucceeded True], Returned)"
  by (simp add: arrived_state_open) (simp add: execute_def shutdown_tick_def WallTracking_new_def init_variable_def)

lemma wallTracking_indoor_pid:
  assumes "scan_data s = Some sd" and "\<not> outdoor s"
      and "frontWallCheck sd (fwc_deg s) (distance_to_stop cfg) < stop_ray_th cfg"
      and "\<not> ((conflictCheck sd (real_of_int (start_deg_lateral cfg)) (distance_from_wall cfg * 2)
                \<or> conflictCheck sd 90 (distance_from_wall cfg * 2))
               \<and> \<not> thresholdCheck sd (flw_deg s) 1.87 \<and> noiseCheck sd (flw_deg s))"
      and "sampling_rate cfg \<noteq> 0"
  shows "wallTracking cfg s =
           Inr (s\<lparr>ei := ei s + (leftWallCheck sd (real_of_int (start_deg_lateral cfg))
                                   (real_of_int (end_deg_lateral cfg)) - distance_from_wall cfg)
                                 * sampling_rate cfg\<rparr>,
                [pub_cmd_vel cfg (max_linear_vel cfg)
                   (kp cfg * (leftWallCheck sd (real_of_int (start_deg_lateral cfg))
                                   (real_of_int (end_deg_lateral cfg)) - distance_from_wall cfg)
                    + ki cfg * (ei s + (leftWallCheck sd (real_of_int (start_deg_lateral cfg))
                                   (real_of_int (end_deg_lateral cfg)) - distance_from_wall cfg)
                                 * sampling_rate cfg)
                    + kd cfg * ((leftWallCheck sd (real_of_int (start_deg_lateral cfg))
                                   (real_of_int (end_deg_lateral cfg)) - distance_from_wall cfg)
                                / sampling_rate cfg)),
                 OpenPlaceDetection ''Indoor''])"
  using assms
  by (auto simp add: wallTracking_def wallTracking_on_def Let_def pub_open_place_detection_def
        lateral_pid_control_def mult.commute)

lemma corridor_pid_branch:
  "frontWallCheck corridor_scan a b = 0" "\<not> conflictCheck corridor_scan a b"
  "leftWallCheck corridor_scan a b = 5 / 4"
  by (simp_all add: corridor_scan_def)

lemma integral_cfg_vals:
  "stop_ray_th integral_cfg = 1 / 2" "sampling_rate integral_cfg = 1" "kp integral_cfg = 0"
  "ki integral_cfg = 1" "kd integral_cfg = 0" "distance_from_wall integral_cfg = 1"
  "max_linear_vel integral_cfg = 1" "max_angular_vel integral_cfg = 1" "min_angular_vel integral_cfg = - 2"
  by (simp_all add: integral_cfg_def example_cfg_def)

lemma after_first_run_state:
  "scan_data after_first_run = Some corridor_scan" "\<not> outdoor after_first_run"
  "ei after_first_run = 1 / 4" "\<not> open_place after_first_run"
  by (simp_all add: after_first_run_def first_run_def execute_def run_tick_def cancel_tick_def
        WallTracking_new_def init_variable_def scan_callback_def Let_def wallTracking_def
        wallTracking_on_def corridor_pid_branch integral_cfg_vals lateral_pid_control_def)

text \<open>
  Claim C1, as amended. \<^verbatim>\<open>init_variable\<close>, which runs once when the node is
  constructed, sets the integral accumulator to zero and the open-place flag to false.
  Beginning an execution sets nothing but the local feedback flag, which is overwritten
  by the open-place flag before it is first published. The accumulator is left as the
  previous execution left it: when the first iteration of an execution takes the PID
  branch, its correction is \<open>kp * e + ki * (ei + e * period) + kd * (e / period)\<close>
  with \<open>ei\<close> the value at the start of the execution.
\<close>

theorem C1_accumulator_carries_over:
  assumes "ok t" and "\<not> is_canceling t" and "inbound t = []"
      and "scan_data s = Some sd" and "\<not> outdoor s"
      and "frontWallCheck sd (fwc_deg s) (distance_to_stop cfg) < stop_ray_th cfg"
      and "\<not> ((conflictCheck sd (real_of_int (start_deg_lateral cfg)) (distance_from_wall cfg * 2)
                \<or> conflictCheck sd 90 (distance_from_wall cfg * 2))
               \<and> \<not> thresholdCheck sd (flw_deg s) 1.87 \<and> noiseCheck sd (flw_deg s))"
      and "sampling_rate cfg \<noteq> 0"
      and "e = leftWallCheck sd (real_of_int (start_deg_lateral cfg))
                 (real_of_int (end_deg_lateral cfg)) - distance_from_wall cfg"
  shows "ei (init_variable fwc flw s0) = 0 \<and> \<not> open_place (init_variable fwc flw s0)
         \<and> execute cfg [t] s =
             (s\<lparr>ei := ei s + e * sampling_rate cfg\<rparr>,
              [Feedback (open_place s),
               pub_cmd_vel cfg (max_linear_vel cfg)
                 (kp cfg * e + ki cfg * (ei s + e * sampling_rate cfg) + kd cfg * (e / sampling_rate cfg)),
               OpenPlaceDetection ''Indoor''],
              StillLooping)"
  using assms(1-3,9) wallTracking_indoor_pid [OF assms(4-8)]
  by (simp add: execute_def init_variable_def)

theorem C1_accumulator_carries_over_witness:
  "ok run_tick \<and> \<not> is_canceling run_tick \<and> inbound run_tick = []
   \<and> scan_data after_first_run = Some corridor_scan \<and> \<not> outdoor after_first_run
   \<and> sampling_rate integral_cfg \<noteq> 0
   \<and> ei after_first_run = 1 / 4
   \<and> snd (execute integral_cfg [run_tick] after_first_run)
       = ([Feedback False, CmdVel 1 (1 / 2), OpenPlaceDetection ''Indoor''], StillLooping)
   \<and> ei (fst (execute integral_cfg [run_tick] after_first_run)) = 1 / 2"
proof -
  have c: "ok run_tick" "\<not> is_canceling run_tick" "inbound run_tick = []"
    by (simp_all add: run_tick_def)
  show ?thesis
    using C1_accumulator_carries_over [of run_tick after_first_run corridor_scan integral_cfg "1 / 4" 0 0 after_first_run] c
    by (simp add: after_first_run_state corridor_pid_branch integral_cfg_vals pub_cmd_vel_def)
qed

text \<open>
  A first execution runs one PID cycle and is cancelled; it leaves 0.25 in the
  accumulator. The first correction of the next execution is 0.5; from a zeroed
  accumulator it would be 0.25.
\<close>

theorem C1_counterexample:
  "ei (WallTracking_new 0 0) = 0
   \<and> fst (snd (execute integral_cfg first_run (WallTracking_new 0 0)))
       = [OpenPlaceArrived False, Feedback False, CmdVel 1 (1 / 4), OpenPlaceDetection ''Indoor'',
          GoalCanceled False, CmdVel 0 0]
   \<and> ei after_first_run = 1 / 4
   \<and> fst (snd (execute integral_cfg [run_tick] after_first_run))
       = [Feedback False, CmdVel 1 (1 / 2), OpenPlaceDetection ''Indoor'']
   \<and> fst (snd (execute integral_cfg [run_tick] (after_first_run\<lparr>ei := 0\<rparr>)))
       = [Feedback False, CmdVel 1 (1 / 4), OpenPlaceDetection ''Indoor'']"
  by (simp add: after_first_run_state)
     (simp add: first_run_def execute_def run_tick_def cancel_tick_def
        WallTracking_new_def init_variable_def scan_callback_def Let_def wallTracking_def
        wallTracking_on_def corridor_pid_branch integral_cfg_vals lateral_pid_control_def
        after_first_run_state pub_cmd_vel_def pub_open_place_arrived_def pub_open_place_detection_def)

end
